theory Spec2Isabelle
  imports Complex_Main
begin

section \<open>Conventions of the embedding\<close>

text \<open>
  The C++ sources compute on \<open>float\<close> and \<open>double\<close>. Both are modelled by \<^typ>\<open>real\<close>:
  every theorem below is a statement in exact arithmetic, and rounding of the machine
  formats is not part of the model. The C++ \<open>int\<close> is modelled by \<^typ>\<open>int\<close>; every counter
  of the modelled classes is reset or stopped before it could leave the 32-bit range, so
  no wrap-around is written out. Conversions between \<open>int\<close> and \<open>size_t\<close> are written out
  where the source compares or indexes with mixed signedness. A read or write outside a
  \<open>std::vector\<close> is undefined behaviour in C++; the functions that index return
  \<^typ>\<open>'a option\<close> and yield \<^const>\<open>None\<close> there.
\<close>

subsection \<open>Numeric helpers of the C++ library\<close>

definition cpp_trunc :: "real \<Rightarrow> int" where
  \<comment> \<open>conversion of a floating value to an integer type: the fraction is discarded\<close>
  "cpp_trunc x = (if 0 \<le> x then \<lfloor>x\<rfloor> else \<lceil>x\<rceil>)"

definition std_round :: "real \<Rightarrow> int" where
  \<comment> \<open>\<open>std::round\<close>: nearest integer, halfway cases away from zero\<close>
  "std_round x = (if 0 \<le> x then \<lfloor>x + 1 / 2\<rfloor> else \<lceil>x - 1 / 2\<rceil>)"

definition std_clamp :: "int \<Rightarrow> int \<Rightarrow> int \<Rightarrow> int" where
  \<comment> \<open>\<open>std::clamp(v, lo, hi)\<close>\<close>
  "std_clamp v lo hi = (if v < lo then lo else if hi < v then hi else v)"

definition jlimit :: "real \<Rightarrow> real \<Rightarrow> real \<Rightarrow> real" where
  \<comment> \<open>\<open>juce::jlimit(lower, upper, value)\<close>\<close>
  "jlimit lo hi v = (if v < lo then lo else if hi < v then hi else v)"

definition cpp_rem :: "int \<Rightarrow> int \<Rightarrow> int" where
  \<comment> \<open>the operator \<open>%\<close> on \<open>int\<close>: the remainder of the division truncated towards zero\<close>
  "cpp_rem a b = sgn a * (\<bar>a\<bar> mod \<bar>b\<bar>)"

definition to_size_t :: "int \<Rightarrow> int" where
  \<comment> \<open>conversion of an \<open>int\<close> to the 64-bit unsigned \<open>size_t\<close>\<close>
  "to_size_t i = i mod 2 ^ 64"

definition size_t_to_int :: "int \<Rightarrow> int" where
  \<comment> \<open>conversion of a \<open>size_t\<close> value back to the 32-bit signed \<open>int\<close>\<close>
  "size_t_to_int u = (let r = u mod 2 ^ 32 in if r < 2 ^ 31 then r else r - 2 ^ 32)"

definition vector_at :: "'a list \<Rightarrow> int \<Rightarrow> 'a option" where
  \<comment> \<open>\<open>v[i]\<close> on a \<open>std::vector\<close> with an \<open>int\<close> index, which \<open>operator[]\<close> takes as
      \<open>size_t\<close>; \<^const>\<open>None\<close> is the read outside the vector\<close>
  "vector_at v i =
     (let u = to_size_t i in if u < int (length v) then Some (v ! nat u) else None)"

definition getMidiNoteInHertz :: "int \<Rightarrow> real" where
  \<comment> \<open>\<open>juce::MidiMessage::getMidiNoteInHertz\<close> with the default \<open>frequencyOfA = 440\<close>\<close>
  "getMidiNoteInHertz noteNumber = 440 * 2 powr (real_of_int (noteNumber - 69) / 12)"

subsection \<open>The parameter store\<close>

text \<open>
  The modules read their controls from the \<open>AudioProcessorValueTreeState\<close>; one value of
  this record is the snapshot of the raw parameter values that a call loads.
\<close>

record Params =
  arpPattern :: real
  arpOctave :: real
  arpSpeed :: real
  pbInitPitch :: real
  pbTime :: real
  vibSustain :: real
  vibSpeed :: real
  vibAmount :: real
  rateReductionParam :: real
  bitDepthParam :: real
  delayTimeParam :: real
  feedbackParam :: real
  dryWetMixParam :: real

definition defaultParams :: Params where
  \<comment> \<open>the default values that \<open>createParameterLayout\<close> declares; \<open>pbTime\<close>, declared with
      0.0 below its range from 0.01 to 3.0, is taken at the lower end of the range\<close>
  "defaultParams =
     \<lparr>arpPattern = 0, arpOctave = 0, arpSpeed = 1 / 2, pbInitPitch = 0, pbTime = 1 / 100,
      vibSustain = 0, vibSpeed = 1 / 10, vibAmount = 1 / 10, rateReductionParam = 1,
      bitDepthParam = 24, delayTimeParam = 0, feedbackParam = 0, dryWetMixParam = 1 / 5\<rparr>"

section \<open>Bitcrusher\<close>

record Bitcrusher =
  sampleRateReduction :: int
  bitDepth :: int
  bitDepthScale :: real
  lastProcessedSample :: real
  currentSampleCount :: int

definition Bitcrusher_init :: Bitcrusher where
  \<comment> \<open>the default member initialisers\<close>
  "Bitcrusher_init =
     \<lparr>sampleRateReduction = 1, bitDepth = 24, bitDepthScale = 2 ^ 24 - 1,
      lastProcessedSample = 0, currentSampleCount = 0\<rparr>"

definition setSampleRateReduction :: "int \<Rightarrow> Bitcrusher \<Rightarrow> Bitcrusher" where
  "setSampleRateReduction reductionFactor b =
     b\<lparr>sampleRateReduction := max 1 reductionFactor\<rparr>"

definition setBitDepth :: "int \<Rightarrow> Bitcrusher \<Rightarrow> Bitcrusher" where
  "setBitDepth depth b =
     (let d = std_clamp depth 1 24
      in b\<lparr>bitDepth := d, bitDepthScale := 2 ^ nat d - 1\<rparr>)"

definition Bitcrusher_process :: "real \<Rightarrow> Bitcrusher \<Rightarrow> real \<times> Bitcrusher" where
  "Bitcrusher_process inVal0 b =
     (let inVal = 2 * inVal0;
          c = currentSampleCount b + 1
      in if c \<ge> sampleRateReduction b then
           let scaled = inVal * bitDepthScale b;
               quantized = real_of_int (std_round scaled);
               out = quantized / bitDepthScale b / 2
           in (out, b\<lparr>currentSampleCount := 0, lastProcessedSample := out\<rparr>)
         else (lastProcessedSample b, b\<lparr>currentSampleCount := c\<rparr>))"

section \<open>Delay\<close>

record Delay =
  buffer :: "real list"
  readPos :: real
  writePos :: real
  feedback :: real
  delayTime :: real
  delay_size :: int
  dryWetMix :: real

definition Delay_init :: "real \<Rightarrow> int \<Rightarrow> Delay" where
  \<comment> \<open>the default member initialisers; \<open>delayTime\<close> and \<open>size\<close> have none, their
      indeterminate initial values are the two arguments\<close>
  "Delay_init dt sz =
     \<lparr>buffer = [], readPos = 1, writePos = 0, feedback = 1 / 2, delayTime = dt,
      delay_size = sz, dryWetMix = 1 / 5\<rparr>"

definition setSize :: "int \<Rightarrow> Delay \<Rightarrow> Delay option" where
  \<comment> \<open>\<open>buffer.resize(size, 0.0f)\<close> keeps the leading elements and pads with zeros; a
      negative size, taken as \<open>size_t\<close>, makes \<open>resize\<close> throw, which is \<^const>\<open>None\<close>\<close>
  "setSize newSize d =
     (if newSize < 0 then None
      else Some (d\<lparr>delay_size := newSize,
                  buffer := take (nat newSize) (buffer d)
                            @ replicate (nat newSize - length (buffer d)) 0\<rparr>))"

definition setFeedback :: "real \<Rightarrow> Delay \<Rightarrow> Delay" where
  "setFeedback f d = d\<lparr>feedback := jlimit 0 (99 / 100) f\<rparr>"

definition setDelayTime :: "real \<Rightarrow> Delay \<Rightarrow> Delay" where
  "setDelayTime delayTimeinSamples d =
     (let rp = writePos d - delayTimeinSamples
      in d\<lparr>delayTime := delayTimeinSamples,
           readPos := (if rp < 0 then rp + real_of_int (delay_size d) else rp)\<rparr>)"

definition setDryWetMix :: "real \<Rightarrow> Delay \<Rightarrow> Delay" where
  "setDryWetMix mix d = d\<lparr>dryWetMix := jlimit 0 1 mix\<rparr>"

definition linearInterpolation :: "Delay \<Rightarrow> real option" where
  "linearInterpolation d =
     (let indexA = \<lfloor>readPos d\<rfloor>;
          indexB = cpp_rem (indexA + 1) (delay_size d)
      in if delay_size d = 0 then None
         else (case vector_at (buffer d) indexA of
                 None \<Rightarrow> None
               | Some ValA \<Rightarrow>
                   (case vector_at (buffer d) indexB of
                      None \<Rightarrow> None
                    | Some ValB \<Rightarrow>
                        (let frac = readPos d - real_of_int indexA
                         in Some ((1 - frac) * ValA + frac * ValB)))))"

definition Delay_process :: "real \<Rightarrow> Delay \<Rightarrow> (real \<times> Delay) option" where
  "Delay_process inVal d =
     (if delayTime d > 0 then
        (case linearInterpolation d of
           None \<Rightarrow> None
         | Some outVal \<Rightarrow>
             (let w = cpp_trunc (writePos d)
              in if 0 \<le> w \<and> w < int (length (buffer d)) then
                   (let buf = (buffer d)[nat w := inVal + outVal * feedback d];
                        wp = writePos d + 1;
                        wp' = (if wp \<ge> real_of_int (delay_size d)
                               then wp - real_of_int (delay_size d) else wp);
                        rp = readPos d + 1;
                        rp' = (if rp \<ge> real_of_int (delay_size d)
                               then rp - real_of_int (delay_size d) else rp)
                    in Some (inVal * (1 - dryWetMix d) + outVal * dryWetMix d,
                             d\<lparr>buffer := buf, writePos := wp', readPos := rp'\<rparr>))
                 else None))
      else Some (inVal, d))"

fun Delay_run :: "real list \<Rightarrow> Delay \<Rightarrow> (real list \<times> Delay) option" where
  \<comment> \<open>successive calls of \<open>process\<close>, one per input sample: the values returned and the
      final state\<close>
  "Delay_run [] d = Some ([], d)"
| "Delay_run (x # xs) d =
     (case Delay_process x d of
        None \<Rightarrow> None
      | Some (y, d') \<Rightarrow>
          (case Delay_run xs d' of
             None \<Rightarrow> None
           | Some (ys, d'') \<Rightarrow> Some (y # ys, d'')))"

section \<open>The master effects chain of \<open>prepareToPlay\<close> and \<open>processBlock\<close>\<close>

definition prepareDelay :: "real \<Rightarrow> real \<Rightarrow> int \<Rightarrow> Delay option" where
  \<comment> \<open>what \<open>prepareToPlay\<close> does for each of the two delays, at the sample rate given
      first; the other two arguments are the indeterminate members of \<open>Delay()\<close>\<close>
  "prepareDelay sampleRate dt sz =
     (case setSize (cpp_trunc (sampleRate * 3)) (Delay_init dt sz) of
        None \<Rightarrow> None
      | Some d \<Rightarrow>
          Some (setDryWetMix (1 / 5) (setFeedback (1 / 10) (setDelayTime (sampleRate * (1 / 2)) d))))"

definition prepareBitcrusher :: Bitcrusher where
  \<comment> \<open>what \<open>prepareToPlay\<close> does for each of the two bitcrushers\<close>
  "prepareBitcrusher = setBitDepth 24 (setSampleRateReduction 1 Bitcrusher_init)"

text \<open>
  \<open>processBlock\<close> refreshes both effects of a channel from the parameters and then, for
  each sample of the block, feeds the sample through the bitcrusher and the result
  through the delay.
\<close>

definition updateEffects :: "real \<Rightarrow> Params \<Rightarrow> Bitcrusher \<times> Delay \<Rightarrow> Bitcrusher \<times> Delay" where
  \<comment> \<open>the first argument is \<open>getSampleRate()\<close>\<close>
  "updateEffects sr p bd =
     (case bd of (b, d) \<Rightarrow>
        (setBitDepth (cpp_trunc (bitDepthParam p))
           (setSampleRateReduction (cpp_trunc (rateReductionParam p)) b),
         setDryWetMix (dryWetMixParam p)
           (setFeedback (feedbackParam p)
              (setDelayTime (sr * delayTimeParam p) d))))"

definition processSample :: "real \<Rightarrow> Bitcrusher \<times> Delay \<Rightarrow> (real \<times> Bitcrusher \<times> Delay) option" where
  "processSample x bd =
     (case bd of (b, d) \<Rightarrow>
        let (processed, b') = Bitcrusher_process x b
        in (case Delay_process processed d of
              None \<Rightarrow> None
            | Some (y, d') \<Rightarrow> Some (y, b', d')))"

section \<open>Phasor and the sine oscillator\<close>

record Phasor =
  frequency :: real
  ph_sampleRate :: real
  phase :: real
  phaseDelta :: real

definition Phasor_init :: Phasor where
  "Phasor_init = \<lparr>frequency = 0, ph_sampleRate = 44100, phase = 0, phaseDelta = 0\<rparr>"

definition updatePhase :: "Phasor \<Rightarrow> Phasor" where
  "updatePhase ph =
     (let p = phase ph + phaseDelta ph
      in ph\<lparr>phase := (if p > 1 then p - 1 else p)\<rparr>)"



definition SinOsc_output :: "real \<Rightarrow> real" where
  \<comment> \<open>the override of \<open>output\<close> in \<open>SinOsc\<close>\<close>
  "SinOsc_output p = sin (p * 2 * pi)"

definition Phasor_process :: "(real \<Rightarrow> real) \<Rightarrow> Phasor \<Rightarrow> real \<times> Phasor" where
  \<comment> \<open>the first argument is the \<open>output\<close> that the dynamic type of the object selects\<close>
  "Phasor_process output ph = (let ph' = updatePhase ph in (output (phase ph'), ph'))"

definition Phasor_setSampleRate :: "real \<Rightarrow> Phasor \<Rightarrow> Phasor" where
  "Phasor_setSampleRate SR ph = ph\<lparr>ph_sampleRate := SR\<rparr>"

definition Phasor_setFrequency :: "real \<Rightarrow> Phasor \<Rightarrow> Phasor" where
  \<comment> \<open>with a sample rate of zero the C++ quotient is an infinity or a NaN, the quotient
      of HOL is 0\<close>
  "Phasor_setFrequency Freq ph =
     ph\<lparr>frequency := Freq, phaseDelta := Freq / ph_sampleRate ph\<rparr>"

definition getPhaseDelta :: "Phasor \<Rightarrow> real" where
  "getPhaseDelta ph = phaseDelta ph"

section \<open>Vibrato\<close>

record Vibrato =
  vibratoLFO :: Phasor
  VibratoFreq :: real
  VibratoAmount :: real
  vib_sampleRate :: real
  sustainSamples :: int
  sustainCounter :: int

definition Vibrato_init :: Vibrato where
  "Vibrato_init =
     \<lparr>vibratoLFO = Phasor_init, VibratoFreq = 5, VibratoAmount = 5 / 1000,
      vib_sampleRate = 44100, sustainSamples = 0, sustainCounter = 0\<rparr>"

definition Vibrato_setSampleRate :: "real \<Rightarrow> Vibrato \<Rightarrow> Vibrato" where
  "Vibrato_setSampleRate newSampleRate v =
     v\<lparr>vib_sampleRate := newSampleRate,
       vibratoLFO := Phasor_setSampleRate newSampleRate (vibratoLFO v)\<rparr>"

definition Vibrato_setFrequency :: "Params \<Rightarrow> Vibrato \<Rightarrow> Vibrato" where
  "Vibrato_setFrequency p v =
     v\<lparr>VibratoFreq := vibSpeed p,
       vibratoLFO := Phasor_setFrequency (vibSpeed p) (vibratoLFO v)\<rparr>"

definition resetSustainCounter :: "Vibrato \<Rightarrow> Vibrato" where
  "resetSustainCounter v = v\<lparr>sustainCounter := 0\<rparr>"

definition updateSustainParameters :: "Params \<Rightarrow> Vibrato \<Rightarrow> Vibrato" where
  "updateSustainParameters p v =
     (let newSustain = vibSustain p
      in if newSustain * vib_sampleRate v \<noteq> real_of_int (sustainSamples v)
         then resetSustainCounter
                (v\<lparr>sustainSamples := cpp_trunc (newSustain * vib_sampleRate v)\<rparr>)
         else v)"

definition Vibrato_process :: "Params \<Rightarrow> Vibrato \<Rightarrow> real \<times> Vibrato" where
  "Vibrato_process p v0 =
     (let v = updateSustainParameters p v0
      in if sustainCounter v < sustainSamples v
         then (0, v\<lparr>sustainCounter := sustainCounter v + 1\<rparr>)
         else (let freq = vibSpeed p * 5 + 3;
                   amount = vibAmount p / 20000;
                   (lfoOut, lfo) = Phasor_process SinOsc_output
                                     (Phasor_setFrequency freq (vibratoLFO v))
               in (lfoOut * amount,
                   v\<lparr>VibratoFreq := freq, VibratoAmount := amount, vibratoLFO := lfo\<rparr>)))"

fun Vibrato_run :: "Params list \<Rightarrow> Vibrato \<Rightarrow> real list \<times> Vibrato" where
  \<comment> \<open>successive calls of \<open>process\<close>, one per parameter snapshot: the values returned
      and the final state\<close>
  "Vibrato_run [] v = ([], v)"
| "Vibrato_run (p # ps) v =
     (let (y, v') = Vibrato_process p v;
          (ys, v'') = Vibrato_run ps v'
      in (y # ys, v''))"

section \<open>PitchBend\<close>

record PitchBend =
  inputNote :: int
  initNote :: int
  currentFreq :: real
  inputFreq :: real
  bendSamples :: int
  bendDelta :: real
  pb_sampleRate :: real


definition calculateBendSamples :: "Params \<Rightarrow> PitchBend \<Rightarrow> PitchBend" where
  "calculateBendSamples p s = s\<lparr>bendSamples := cpp_trunc (pbTime p * pb_sampleRate s)\<rparr>"

definition PitchBend_setSampleRate :: "Params \<Rightarrow> real \<Rightarrow> PitchBend \<Rightarrow> PitchBend" where
  "PitchBend_setSampleRate p sr s = calculateBendSamples p (s\<lparr>pb_sampleRate := sr\<rparr>)"


definition PitchBend_process :: "PitchBend \<Rightarrow> real \<times> PitchBend" where
  "PitchBend_process s =
     (let cur = (if (bendDelta s > 0 \<and> currentFreq s < inputFreq s)
                    \<or> (bendDelta s < 0 \<and> currentFreq s > inputFreq s)
                 then currentFreq s + bendDelta s
                 else inputFreq s)
      in (cur, s\<lparr>currentFreq := cur\<rparr>))"

definition PitchBend_calls :: "nat \<Rightarrow> PitchBend \<Rightarrow> PitchBend" where
  \<comment> \<open>the state after \<open>n\<close> successive calls of \<open>process\<close>\<close>
  "PitchBend_calls n = (\<lambda>s. snd (PitchBend_process s)) ^^ n"

section \<open>Arpeggiator\<close>

record Arpeggiator =
  pattern :: "int list"
  noteIndex :: int
  noteIncrement :: int
  numOctaves :: int
  rootNote :: int
  currentNote :: int
  speed :: real
  arp_sampleRate :: real
  samplesPerNote :: int
  sampleCounter :: int
  currentArpPattern :: int
  currentArpOctave :: int

definition incrementPattern :: "Arpeggiator \<Rightarrow> Arpeggiator" where
  \<comment> \<open>the comparison with \<open>pattern.size()\<close> and the assignment of \<open>pattern.size() - 1\<close>
      are computed in \<open>size_t\<close>\<close>
  "incrementPattern a =
     (let i = noteIndex a + 1
      in if to_size_t i \<ge> int (length (pattern a)) then
           (if numOctaves a > 0 then
              (let inc = noteIncrement a + 1
               in a\<lparr>noteIndex := 0,
                    noteIncrement := (if inc \<ge> numOctaves a then 0 else inc)\<rparr>)
            else a\<lparr>noteIndex := size_t_to_int (to_size_t (int (length (pattern a)) - 1))\<rparr>)
         else a\<lparr>noteIndex := i\<rparr>)"

definition generateRandomPattern :: "(nat \<Rightarrow> int) \<Rightarrow> Arpeggiator \<Rightarrow> Arpeggiator" where
  \<comment> \<open>the first argument gives the value that the \<open>i\<close>-th call of
      \<open>randomEngine.nextInt\<close> in the loop returns\<close>
  "generateRandomPattern rnd a = a\<lparr>pattern := [0] @ map rnd [0..<6]\<rparr>"

definition updateSamplesPerNote :: "Params \<Rightarrow> Arpeggiator \<Rightarrow> Arpeggiator" where
  "updateSamplesPerNote p a =
     a\<lparr>samplesPerNote := cpp_trunc (arp_sampleRate a * (1 / 2) * (101 / 100 - arpSpeed p))\<rparr>"

definition setSpeed :: "Params \<Rightarrow> Arpeggiator \<Rightarrow> Arpeggiator" where
  "setSpeed p a = updateSamplesPerNote p (a\<lparr>speed := arpSpeed p\<rparr>)"

definition Arpeggiator_setSampleRate :: "Params \<Rightarrow> real \<Rightarrow> Arpeggiator \<Rightarrow> Arpeggiator" where
  "Arpeggiator_setSampleRate p newSampleRate a =
     updateSamplesPerNote p (a\<lparr>arp_sampleRate := newSampleRate\<rparr>)"

definition switchArpPattern :: "(nat \<Rightarrow> int) \<Rightarrow> Params \<Rightarrow> Arpeggiator \<Rightarrow> Arpeggiator" where
  \<comment> \<open>the \<open>switch\<close> has no default: another selector value leaves the pattern as it is\<close>
  "switchArpPattern rnd p a0 =
     (let a = a0\<lparr>currentArpPattern := cpp_trunc (arpPattern p)\<rparr>;
          c = currentArpPattern a
      in if c = 8 then generateRandomPattern rnd a
         else if c = 0 then a\<lparr>pattern := [0, 3]\<rparr>
         else if c = 1 then a\<lparr>pattern := [0, 4]\<rparr>
         else if c = 2 then a\<lparr>pattern := [0, 5]\<rparr>
         else if c = 3 then a\<lparr>pattern := [0, 7]\<rparr>
         else if c = 4 then a\<lparr>pattern := [0, 3, 7]\<rparr>
         else if c = 5 then a\<lparr>pattern := [0, 4, 7]\<rparr>
         else if c = 6 then a\<lparr>pattern := [0, 4, 7, 11]\<rparr>
         else if c = 7 then a\<lparr>pattern := [0, 4, 7, 11, 14]\<rparr>
         else a)"

definition switchArpOctave :: "Params \<Rightarrow> Arpeggiator \<Rightarrow> Arpeggiator" where
  "switchArpOctave p a0 =
     (let a = a0\<lparr>currentArpOctave := cpp_trunc (arpOctave p)\<rparr>;
          c = currentArpOctave a
      in if c = 0 then a\<lparr>numOctaves := 0\<rparr>
         else if c = 1 then a\<lparr>numOctaves := 1\<rparr>
         else if c = 2 then a\<lparr>numOctaves := 2\<rparr>
         else a)"

definition Arpeggiator_init :: "(nat \<Rightarrow> int) \<Rightarrow> Params \<Rightarrow> Arpeggiator" where
  \<comment> \<open>the default member initialisers, then the body of the constructor\<close>
  "Arpeggiator_init rnd p =
     switchArpOctave p
       (switchArpPattern rnd p
          \<lparr>pattern = [], noteIndex = 1, noteIncrement = 0, numOctaves = 0, rootNote = 0,
           currentNote = 0, speed = 1, arp_sampleRate = 44100, samplesPerNote = 44100,
           sampleCounter = 0, currentArpPattern = 0, currentArpOctave = 0\<rparr>)"

definition startArpeggio :: "(nat \<Rightarrow> int) \<Rightarrow> Params \<Rightarrow> int \<Rightarrow> Arpeggiator \<Rightarrow> Arpeggiator" where
  "startArpeggio rnd p root_note a =
     switchArpOctave p
       (switchArpPattern rnd p
          (a\<lparr>rootNote := root_note, currentNote := root_note, noteIncrement := 0, noteIndex := 1,
             sampleCounter := 0\<rparr>))"

definition advanceNote :: "Arpeggiator \<Rightarrow> Arpeggiator option" where
  \<comment> \<open>the body of \<open>if (sampleCounter >= samplesPerNote)\<close> in \<open>getNextFrequency\<close>\<close>
  "advanceNote a0 =
     (let a = a0\<lparr>sampleCounter := 0\<rparr>
      in if to_size_t (noteIndex a) \<le> int (length (pattern a)) then
           (case vector_at (pattern a) (noteIndex a) of
              None \<Rightarrow> None
            | Some semitones \<Rightarrow>
                (let newNote = rootNote a + semitones + 12 * noteIncrement a
                 in Some (incrementPattern (a\<lparr>currentNote := newNote\<rparr>))))
         else Some a)"

definition noteDue :: "Params \<Rightarrow> Arpeggiator \<Rightarrow> bool" where
  \<comment> \<open>the test \<open>sampleCounter >= samplesPerNote\<close> of \<open>getNextFrequency\<close>, after
      \<open>setSpeed\<close>\<close>
  "noteDue p a = (sampleCounter (setSpeed p a) \<ge> samplesPerNote (setSpeed p a))"

definition getNextFrequency :: "Params \<Rightarrow> Arpeggiator \<Rightarrow> (real \<times> Arpeggiator) option" where
  "getNextFrequency p a0 =
     (let a = setSpeed p a0
      in case (if noteDue p a0 then advanceNote a else Some a) of
           None \<Rightarrow> None
         | Some a1 \<Rightarrow>
             (let a2 = a1\<lparr>sampleCounter := sampleCounter a1 + 1\<rparr>
              in Some (getMidiNoteInHertz (currentNote a2), a2)))"

fun Arpeggiator_run :: "Params list \<Rightarrow> Arpeggiator \<Rightarrow> (real list \<times> Arpeggiator) option" where
  \<comment> \<open>successive calls of \<open>getNextFrequency\<close>, one per parameter snapshot: the
      frequencies returned and the final state\<close>
  "Arpeggiator_run [] a = Some ([], a)"
| "Arpeggiator_run (p # ps) a =
     (case getNextFrequency p a of
        None \<Rightarrow> None
      | Some (f, a') \<Rightarrow>
          (case Arpeggiator_run ps a' of
             None \<Rightarrow> None
           | Some (fs, a'') \<Rightarrow> Some (f # fs, a'')))"


section \<open>Facts about the numeric helpers\<close>

lemma std_round_error: "\<bar>real_of_int (std_round z) - z\<bar> \<le> 1 / 2"
proof (cases "0 \<le> z")
  case True
  have "real_of_int \<lfloor>z + 1 / 2\<rfloor> \<le> z + 1 / 2" "z + 1 / 2 < real_of_int \<lfloor>z + 1 / 2\<rfloor> + 1"
    by linarith+
  moreover have "std_round z = \<lfloor>z + 1 / 2\<rfloor>" using True by (simp add: std_round_def)
  ultimately show ?thesis by linarith
next
  case False
  have "z - 1 / 2 \<le> real_of_int \<lceil>z - 1 / 2\<rceil>" "real_of_int \<lceil>z - 1 / 2\<rceil> < z - 1 / 2 + 1"
    by linarith+
  moreover have "std_round z = \<lceil>z - 1 / 2\<rceil>" using False by (simp add: std_round_def)
  ultimately show ?thesis by linarith
qed

lemma std_round_of_int: "std_round (real_of_int k) = k"
  unfolding std_round_def by (auto split: if_splits) linarith+

lemma std_round_bounds:
  assumes "- real_of_int S \<le> z" "z \<le> real_of_int S"
  shows "- S \<le> std_round z \<and> std_round z \<le> S"
  using assms unfolding std_round_def by (auto split: if_splits) linarith+

lemma cpp_trunc_of_int: "cpp_trunc (real_of_int k) = k"
  by (simp add: cpp_trunc_def)



section \<open>Bitcrusher and Delay: transparency of the master chain\<close>

lemma Bitcrusher_process_update:
  "sampleRateReduction b \<le> currentSampleCount b + 1 \<Longrightarrow>
   fst (Bitcrusher_process x b)
     = real_of_int (std_round (2 * x * bitDepthScale b)) / bitDepthScale b / 2"
  by (simp add: Bitcrusher_process_def Let_def)

text \<open>
  The sample counter never becomes negative: it starts at 0 and \<open>process\<close> either
  increments it or sets it to 0.
\<close>

lemma Bitcrusher_count_nonneg:
  "0 \<le> currentSampleCount b \<Longrightarrow> 0 \<le> currentSampleCount (snd (Bitcrusher_process x b))"
  by (simp add: Bitcrusher_process_def Let_def)

lemma quantize_error:
  assumes "0 < S"
  shows "\<bar>real_of_int (std_round (2 * x * S)) / S / 2 - x\<bar> \<le> 1 / (4 * S)"
proof -
  have "real_of_int (std_round (2 * x * S)) / S / 2 - x
        = (real_of_int (std_round (2 * x * S)) - 2 * x * S) / (2 * S)"
    using assms by (simp add: field_simps)
  also have "\<bar>\<dots>\<bar> = \<bar>real_of_int (std_round (2 * x * S)) - 2 * x * S\<bar> / (2 * S)"
    using assms by simp
  also have "\<dots> \<le> (1 / 2) / (2 * S)"
    using assms std_round_error [of "2 * x * S"] by (intro divide_right_mono) auto
  finally show ?thesis by simp
qed

lemma Bitcrusher_full_resolution_error:
  assumes "0 \<le> currentSampleCount b0"
  shows "\<bar>fst (Bitcrusher_process x (setBitDepth 24 (setSampleRateReduction 1 b0))) - x\<bar>
         \<le> 1 / (4 * (2 ^ 24 - 1))"
proof -
  let ?b = "setBitDepth 24 (setSampleRateReduction 1 b0)"
  have s: "bitDepthScale ?b = 2 ^ 24 - 1" "sampleRateReduction ?b = 1"
    "currentSampleCount ?b = currentSampleCount b0"
    by (simp_all add: setBitDepth_def setSampleRateReduction_def std_clamp_def Let_def)
  have "fst (Bitcrusher_process x ?b)
        = real_of_int (std_round (2 * x * (2 ^ 24 - 1))) / (2 ^ 24 - 1) / 2"
    using Bitcrusher_process_update [of ?b x] assms s by simp
  moreover have "\<bar>real_of_int (std_round (2 * x * (2 ^ 24 - 1))) / (2 ^ 24 - 1) / 2 - x\<bar>
        \<le> 1 / (4 * (2 ^ 24 - 1))"
    by (rule quantize_error) simp
  ultimately show ?thesis by (simp only:)
qed

lemma Delay_process_nonpositive: "delayTime d \<le> 0 \<Longrightarrow> Delay_process x d = Some (x, d)"
  by (simp add: Delay_process_def)

text \<open>
  Claim C1. With the rate reduction parameter at 1 and the bit depth parameter at 24,
  \<open>Bitcrusher::process\<close> returns its input \<open>x\<close> up to the quantisation error
  \<open>1 / (4 * (2^24 - 1))\<close>, in exact arithmetic; the bound holds for every real \<open>x\<close>, so
  in particular for \<open>x\<close> between -0.5 and 0.5. With the delay time parameter at 0 as
  well, the per-channel chain of \<open>processBlock\<close>, the delay applied to the output of the
  bitcrusher, returns a value within the same bound of \<open>x\<close> and leaves the delay as it
  is. The bitcrusher is any one whose sample counter is not negative, which
  \<open>Bitcrusher_count_nonneg\<close> shows to hold from construction on.
\<close>

theorem master_chain_transparent:
  assumes "0 \<le> currentSampleCount b0"
    and "rateReductionParam p = 1" and "bitDepthParam p = 24" and "delayTimeParam p = 0"
  shows "\<bar>fst (Bitcrusher_process x (fst (updateEffects sr p (b0, d0)))) - x\<bar>
           \<le> 1 / (4 * (2 ^ 24 - 1))
         \<and> (\<exists>y b'. processSample x (updateEffects sr p (b0, d0))
                        = Some (y, b', snd (updateEffects sr p (b0, d0)))
                    \<and> \<bar>y - x\<bar> \<le> 1 / (4 * (2 ^ 24 - 1)))"
proof -
  let ?b = "setBitDepth 24 (setSampleRateReduction 1 b0)"
  let ?d = "snd (updateEffects sr p (b0, d0))"
  have b: "fst (updateEffects sr p (b0, d0)) = ?b"
    using assms by (simp add: updateEffects_def cpp_trunc_def)
  have dt: "delayTime ?d = 0"
    using assms
    by (simp add: updateEffects_def setDryWetMix_def setFeedback_def setDelayTime_def Let_def)
  have e: "\<bar>fst (Bitcrusher_process x ?b) - x\<bar> \<le> 1 / (4 * (2 ^ 24 - 1))"
    using assms(1) by (rule Bitcrusher_full_resolution_error)
  have "processSample x (updateEffects sr p (b0, d0))
        = Some (fst (Bitcrusher_process x ?b), snd (Bitcrusher_process x ?b), ?d)"
    using b dt Delay_process_nonpositive [of ?d]
    by (cases "updateEffects sr p (b0, d0)") (simp add: processSample_def split: prod.splits)
  with e b show ?thesis by (simp only:) blast
qed

theorem master_chain_transparent_witness:
  "0 \<le> currentSampleCount prepareBitcrusher
   \<and> rateReductionParam defaultParams = 1 \<and> bitDepthParam defaultParams = 24
   \<and> delayTimeParam defaultParams = 0
   \<and> \<bar>fst (Bitcrusher_process (1 / 4)
             (fst (updateEffects 44100 defaultParams
                     (prepareBitcrusher, Delay_init 0 0)))) - 1 / 4\<bar>
       \<le> 1 / (4 * (2 ^ 24 - 1))
   \<and> (\<exists>y b'. processSample (1 / 4)
                  (updateEffects 44100 defaultParams (prepareBitcrusher, Delay_init 0 0))
                = Some (y, b', snd (updateEffects 44100 defaultParams
                                      (prepareBitcrusher, Delay_init 0 0)))
              \<and> \<bar>y - 1 / 4\<bar> \<le> 1 / (4 * (2 ^ 24 - 1)))"
proof -
  have h: "0 \<le> currentSampleCount prepareBitcrusher"
    "rateReductionParam defaultParams = 1" "bitDepthParam defaultParams = 24"
    "delayTimeParam defaultParams = 0"
    by (simp_all add: prepareBitcrusher_def setBitDepth_def setSampleRateReduction_def
        Bitcrusher_init_def defaultParams_def Let_def)
  from master_chain_transparent [OF h, of "1 / 4" 44100 "Delay_init 0 0"] h
  show ?thesis by blast
qed

text \<open>
  Claim C2. For every input \<open>x\<close> and every delay whose \<open>delayTime\<close> is zero or negative,
  \<open>Delay::process\<close> returns exactly \<open>x\<close> and leaves the whole state of the delay, the
  buffer and both positions included, unchanged.
\<close>

theorem Delay_process_bypass:
  "delayTime d \<le> 0 \<Longrightarrow> Delay_process x d = Some (x, d)"
  by (rule Delay_process_nonpositive)

theorem Delay_process_bypass_witness:
  "\<exists>d. prepareDelay 8 5 0 = Some d
       \<and> delayTime (setDelayTime (8 * 0) d) \<le> 0
       \<and> Delay_process (3 / 10) (setDelayTime (8 * 0) d)
           = Some (3 / 10, setDelayTime (8 * 0) d)"
proof -
  obtain d where d: "prepareDelay 8 5 0 = Some d"
    by (simp add: prepareDelay_def setSize_def cpp_trunc_def)
  have h: "delayTime (setDelayTime (8 * 0) d) \<le> 0"
    by (simp add: setDelayTime_def Let_def)
  from Delay_process_bypass [OF h, of "3 / 10"] d h show ?thesis by blast
qed


text \<open>
  For comparison, the branch for a positive delay time. A delay line of four samples
  (\<open>setSize 4\<close>) with a delay of two samples, no feedback and a fully wet mix returns
  the first input on the third call.
\<close>

lemma Delay_example_state:
  "map_option (\<lambda>d. setDryWetMix 1 (setFeedback 0 (setDelayTime 2 d)))
     (setSize 4 (Delay_init 0 0))
   = Some \<lparr>buffer = [0, 0, 0, 0], readPos = 2, writePos = 0, feedback = 0, delayTime = 2,
           delay_size = 4, dryWetMix = 1\<rparr>"
  by (simp add: setSize_def Delay_init_def setDryWetMix_def setFeedback_def setDelayTime_def
      jlimit_def Let_def numeral_eq_Suc)

lemma Delay_example_run:
  "map_option fst
     (Delay_run [7, 8, 9]
        \<lparr>buffer = [0, 0, 0, 0], readPos = 2, writePos = 0, feedback = 0, delayTime = 2,
         delay_size = 4, dryWetMix = 1\<rparr>)
   = Some [0, 0, 7]"
  by (simp add: Delay_process_def linearInterpolation_def vector_at_def
      to_size_t_def cpp_rem_def cpp_trunc_def Let_def)

section \<open>Bitcrusher: the quantisation levels\<close>

lemma levels_image:
  assumes "0 < S"
  shows "(\<lambda>x. real_of_int (std_round (2 * x * real_of_int S)) / real_of_int S / 2)
           ` {- 1 / 2 .. 1 / 2}
         = (\<lambda>k. real_of_int k / (2 * real_of_int S)) ` {- S .. S}" (is "?f ` ?A = ?g ` ?B")
proof (intro equalityI subsetI)
  fix y assume "y \<in> ?f ` ?A"
  then obtain x where x: "- 1 / 2 \<le> x" "x \<le> 1 / 2" and y: "y = ?f x" by auto
  have "- real_of_int S \<le> 2 * x * real_of_int S" "2 * x * real_of_int S \<le> real_of_int S"
  proof -
    have "- 1 \<le> 2 * x" "2 * x \<le> 1" using x by simp_all
    then show "- real_of_int S \<le> 2 * x * real_of_int S" "2 * x * real_of_int S \<le> real_of_int S"
      using assms mult_right_mono [of "- 1" "2 * x" "real_of_int S"]
        mult_right_mono [of "2 * x" 1 "real_of_int S"] by simp_all
  qed
  then have "std_round (2 * x * real_of_int S) \<in> ?B"
    using std_round_bounds by auto
  moreover have "y = ?g (std_round (2 * x * real_of_int S))"
    using y by simp
  ultimately show "y \<in> ?g ` ?B" by blast
next
  fix y assume "y \<in> ?g ` ?B"
  then obtain k where k: "- S \<le> k" "k \<le> S" and y: "y = ?g k" by auto
  let ?x = "real_of_int k / (2 * real_of_int S)"
  have "2 * ?x * real_of_int S = real_of_int k" using assms by simp
  then have "?f ?x = y" using y by (simp add: std_round_of_int)
  moreover have "?x \<in> ?A" using k assms by (simp add: field_simps)
  ultimately show "y \<in> ?f ` ?A" by blast
qed

lemma levels_card:
  assumes "0 < S"
  shows "card ((\<lambda>k. real_of_int k / (2 * real_of_int S)) ` {- S .. S}) = nat (2 * S + 1)"
proof -
  have "inj_on (\<lambda>k. real_of_int k / (2 * real_of_int S)) {- S .. S}"
    using assms by (auto simp: inj_on_def)
  then show ?thesis by (simp add: card_image)
qed

text \<open>
  On a call that recomputes the held value, a bitcrusher of depth \<open>d\<close> maps the inputs
  between -0.5 and 0.5 onto the \<open>2 * (2^d - 1) + 1\<close> values \<open>k / (2 * (2^d - 1))\<close> with
  \<open>k\<close> from \<open>-(2^d - 1)\<close> to \<open>2^d - 1\<close>.
\<close>

lemma Bitcrusher_levels:
  assumes "1 \<le> d" "d \<le> 24" "sampleRateReduction b \<le> currentSampleCount b + 1"
  shows "(\<lambda>x. fst (Bitcrusher_process x (setBitDepth d b))) ` {- 1 / 2 .. 1 / 2}
         = (\<lambda>k. real_of_int k / (2 * real_of_int (2 ^ nat d - 1)))
             ` {- (2 ^ nat d - 1) .. 2 ^ nat d - 1}"
proof -
  let ?S = "2 ^ nat d - 1 :: int"
  have "(2::int) ^ 1 \<le> 2 ^ nat d"
    using assms(1) by (intro power_increasing) auto
  then have S: "0 < ?S" by simp
  have sc: "bitDepthScale (setBitDepth d b) = real_of_int ?S"
    using assms by (simp add: setBitDepth_def std_clamp_def Let_def)
  have f: "sampleRateReduction (setBitDepth d b) \<le> currentSampleCount (setBitDepth d b) + 1"
    using assms by (simp add: setBitDepth_def Let_def)
  have h: "(\<lambda>x. fst (Bitcrusher_process x (setBitDepth d b)))
        = (\<lambda>x. real_of_int (std_round (2 * x * real_of_int ?S)) / real_of_int ?S / 2)"
    using Bitcrusher_process_update [OF f] sc by (simp only:)
  show ?thesis unfolding h by (rule levels_image [OF S])
qed

lemma Bitcrusher_levels_card:
  assumes "1 \<le> d" "d \<le> 24" "sampleRateReduction b \<le> currentSampleCount b + 1"
  shows "card ((\<lambda>x. fst (Bitcrusher_process x (setBitDepth d b))) ` {- 1 / 2 .. 1 / 2})
         = 2 ^ (nat d + 1) - 1"
proof -
  have "(2::int) ^ 1 \<le> 2 ^ nat d"
    using assms(1) by (intro power_increasing) auto
  then have S: "0 < (2 ^ nat d - 1 :: int)" by simp
  have "nat (2 * (2 ^ nat d - 1) + 1) = 2 ^ (nat d + 1) - 1"
    by (simp add: nat_diff_distrib' nat_power_eq nat_mult_distrib)
  then show ?thesis
    unfolding Bitcrusher_levels [OF assms] levels_card [OF S] by simp
qed

text \<open>
  Sample and hold, as the triangle voice configures it (rate reduction 2, bit depth 4):
  the first call returns the held initial value 0, the second call quantises its input
  0.25 to \<open>8 / 15 / 2\<close>.
\<close>

lemma Bitcrusher_hold_example:
  "fst (Bitcrusher_process (1 / 4)
          (setBitDepth 4 (setSampleRateReduction 2 Bitcrusher_init))) = 0
   \<and> fst (Bitcrusher_process (1 / 4)
            (snd (Bitcrusher_process (1 / 4)
                    (setBitDepth 4 (setSampleRateReduction 2 Bitcrusher_init))))) = 4 / 15"
  by (simp add: Bitcrusher_process_def setBitDepth_def setSampleRateReduction_def
      Bitcrusher_init_def std_clamp_def std_round_def Let_def)

text \<open>
  Claim C3. The claim asks for exactly \<open>2^d\<close> distinct outputs at bit depth \<open>d\<close>. The
  code produces more: at bit depth 4, the depth that the triangle voice sets for its
  sixteen-step wave, a freshly constructed bitcrusher maps the inputs between -0.5 and
  0.5 onto the 31 values \<open>k / 30\<close> with \<open>k\<close> from -15 to 15, not onto 16 values. The
  scale \<open>2^d - 1\<close> counts the steps of a \<open>d\<close>-bit range once, and \<open>process\<close> applies it
  to the doubled, two-sided input.
\<close>

theorem Bitcrusher_depth_4_has_31_levels:
  "(\<lambda>x. fst (Bitcrusher_process x (setBitDepth 4 Bitcrusher_init))) ` {- 1 / 2 .. 1 / 2}
     = (\<lambda>k. real_of_int k / 30) ` {- 15 .. 15}
   \<and> card ((\<lambda>x. fst (Bitcrusher_process x (setBitDepth 4 Bitcrusher_init)))
             ` {- 1 / 2 .. 1 / 2}) = 31"
proof -
  have "(\<lambda>x. fst (Bitcrusher_process x (setBitDepth 4 Bitcrusher_init))) ` {- 1 / 2 .. 1 / 2}
        = (\<lambda>k. real_of_int k / (2 * real_of_int (2 ^ nat 4 - 1)))
            ` {- (2 ^ nat 4 - 1) .. 2 ^ nat 4 - 1}"
    by (rule Bitcrusher_levels) (simp_all add: Bitcrusher_init_def)
  then have i: "(\<lambda>x. fst (Bitcrusher_process x (setBitDepth 4 Bitcrusher_init)))
                  ` {- 1 / 2 .. 1 / 2}
        = (\<lambda>k. real_of_int k / 30) ` {- 15 .. 15}"
    by simp
  have "card ((\<lambda>k. real_of_int k / (2 * real_of_int 15)) ` {- 15 .. 15}) = nat (2 * 15 + 1)"
    by (rule levels_card) simp
  then have "card ((\<lambda>k. real_of_int k / 30) ` {- 15 .. 15 :: int}) = 31" by simp
  with i show ?thesis by simp
qed

section \<open>Phasor: the range of the phase\<close>


text \<open>
  The test of \<open>updatePhase\<close> is \<open>phase > 1.0f\<close>, so a phase that lands on 1.0 exactly is
  kept: at half the sample rate the second tick leaves the phase at 1. (The wrap of the
  wavetable phase in \<open>Noise::process\<close> tests with \<open>>=\<close>.)
\<close>

lemma Phasor_phase_exactly_one:
  "phase (updatePhase (updatePhase
      (Phasor_setFrequency 22050 (Phasor_setSampleRate 44100 Phasor_init)))) = 1"
  by (simp add: updatePhase_def Phasor_setFrequency_def
      Phasor_setSampleRate_def Phasor_init_def Let_def)




section \<open>PitchBend: the ramp towards the target\<close>







lemma PitchBend_setSampleRate_bendSamples:
  assumes "1 \<le> pbTime p * sr"
  shows "0 < bendSamples (PitchBend_setSampleRate p sr s)"
proof -
  have "1 \<le> \<lfloor>pbTime p * sr\<rfloor>" using assms by linarith
  then show ?thesis using assms
    by (simp add: PitchBend_setSampleRate_def calculateBendSamples_def cpp_trunc_def)
qed



text \<open>
  The theorem rests on the distance to the target being a whole number of steps, which
  \<open>startPitchBend\<close> establishes in exact arithmetic. \<open>process\<close> itself only tests whether
  the target has been reached before it adds a step: from a state that is one and a
  third steps short of the target, the second call passes the target and the third
  call pins the frequency.
\<close>

lemma PitchBend_off_grid_example:
  "map (\<lambda>n. currentFreq (PitchBend_calls n
          \<lparr>inputNote = 0, initNote = 0, currentFreq = 0, inputFreq = 1, bendSamples = 1,
           bendDelta = 3 / 4, pb_sampleRate = 44100\<rparr>)) [0, 1, 2, 3]
   = [0, 3 / 4, 3 / 2, 1]"
  by (simp add: PitchBend_calls_def PitchBend_process_def numeral_eq_Suc Let_def)

section \<open>Vibrato: the sustain gate\<close>

lemma updateSustainParameters_integral:
  assumes "vibSustain p * vib_sampleRate v = real_of_int N"
  shows "sustainSamples (updateSustainParameters p v) = N"
    "vib_sampleRate (updateSustainParameters p v) = vib_sampleRate v"
    "vibratoLFO (updateSustainParameters p v) = vibratoLFO v"
    "sustainSamples v = N \<Longrightarrow> updateSustainParameters p v = v"
    "sustainCounter v = 0 \<Longrightarrow> sustainCounter (updateSustainParameters p v) = 0"
  using assms
  by (simp_all add: updateSustainParameters_def resetSustainCounter_def Let_def cpp_trunc_of_int)

lemma Vibrato_process_gate:
  assumes "vibSustain p * vib_sampleRate v = real_of_int N"
    and "sustainSamples v = N \<or> sustainCounter v = 0"
  shows "vib_sampleRate (snd (Vibrato_process p v)) = vib_sampleRate v"
    and "sustainSamples (snd (Vibrato_process p v)) = N"
    and "sustainCounter v < N \<Longrightarrow> fst (Vibrato_process p v) = 0"
    and "sustainCounter v < N \<Longrightarrow>
           sustainCounter (snd (Vibrato_process p v)) = sustainCounter v + 1"
    and "sustainCounter v < N \<Longrightarrow> vibratoLFO (snd (Vibrato_process p v)) = vibratoLFO v"
    and "N \<le> sustainCounter v \<Longrightarrow>
           sustainCounter (snd (Vibrato_process p v)) = sustainCounter v"
    and "N \<le> sustainCounter v \<Longrightarrow>
           fst (Vibrato_process p v)
             = fst (Phasor_process SinOsc_output
                      (Phasor_setFrequency (vibSpeed p * 5 + 3) (vibratoLFO v)))
               * (vibAmount p / 20000)"
proof -
  let ?u = "updateSustainParameters p v"
  have u1: "sustainSamples ?u = N" "vib_sampleRate ?u = vib_sampleRate v"
    "vibratoLFO ?u = vibratoLFO v"
    by (rule updateSustainParameters_integral [OF assms(1)])+
  have u2: "sustainCounter ?u = sustainCounter v"
  proof (cases "sustainSamples v = N")
    case True
    then have "?u = v" by (rule updateSustainParameters_integral(4) [OF assms(1)])
    then show ?thesis by simp
  next
    case False
    with assms(2) have z: "sustainCounter v = 0" by simp
    then have "sustainCounter ?u = 0" by (rule updateSustainParameters_integral(5) [OF assms(1)])
    with z show ?thesis by simp
  qed
  note u = u1 u2
  show "vib_sampleRate (snd (Vibrato_process p v)) = vib_sampleRate v"
    "sustainSamples (snd (Vibrato_process p v)) = N"
    using u by (simp_all add: Vibrato_process_def Let_def split: prod.splits)
  show "sustainCounter v < N \<Longrightarrow> fst (Vibrato_process p v) = 0"
    "sustainCounter v < N \<Longrightarrow>
           sustainCounter (snd (Vibrato_process p v)) = sustainCounter v + 1"
    "sustainCounter v < N \<Longrightarrow> vibratoLFO (snd (Vibrato_process p v)) = vibratoLFO v"
    using u by (simp_all add: Vibrato_process_def Let_def split: prod.splits)
  show "N \<le> sustainCounter v \<Longrightarrow>
           sustainCounter (snd (Vibrato_process p v)) = sustainCounter v"
    "N \<le> sustainCounter v \<Longrightarrow>
           fst (Vibrato_process p v)
             = fst (Phasor_process SinOsc_output
                      (Phasor_setFrequency (vibSpeed p * 5 + 3) (vibratoLFO v)))
               * (vibAmount p / 20000)"
    using u by (simp_all add: Vibrato_process_def Let_def split: prod.splits)
qed

lemma Vibrato_run_snoc:
  "Vibrato_run (ps @ [p]) v
     = (fst (Vibrato_run ps v) @ [fst (Vibrato_process p (snd (Vibrato_run ps v)))],
        snd (Vibrato_process p (snd (Vibrato_run ps v))))"
  by (induction ps arbitrary: v) (simp_all add: Let_def split: prod.splits)

lemma Vibrato_run_state:
  assumes "\<forall>p \<in> set ps. vibSustain p = T" "T * vib_sampleRate v = real_of_int N"
    "sustainCounter v = 0"
  shows "vib_sampleRate (snd (Vibrato_run ps v)) = vib_sampleRate v
       \<and> (ps \<noteq> [] \<longrightarrow> sustainSamples (snd (Vibrato_run ps v)) = N)
       \<and> sustainCounter (snd (Vibrato_run ps v)) = max 0 (min (int (length ps)) N)"
  using assms(1)
proof (induction ps rule: rev_induct)
  case Nil
  then show ?case using assms by simp
next
  case (snoc p ps)
  let ?w = "snd (Vibrato_run ps v)"
  from snoc have w: "vib_sampleRate ?w = vib_sampleRate v"
    "ps \<noteq> [] \<longrightarrow> sustainSamples ?w = N"
    "sustainCounter ?w = max 0 (min (int (length ps)) N)" by auto
  have T: "vibSustain p * vib_sampleRate ?w = real_of_int N"
    using snoc.prems assms(2) w by simp
  have c: "sustainSamples ?w = N \<or> sustainCounter ?w = 0"
    using w by (cases ps) auto
  note g = Vibrato_process_gate [OF T c]
  let ?w' = "snd (Vibrato_process p ?w)"
  have r: "snd (Vibrato_run (ps @ [p]) v) = ?w'" by (simp add: Vibrato_run_snoc)
  have "sustainCounter ?w' = max 0 (min (int (length (ps @ [p]))) N)"
  proof (cases "sustainCounter ?w < N")
    case True
    then have "sustainCounter ?w' = sustainCounter ?w + 1" by (rule g(4))
    moreover have "sustainCounter ?w + 1 = max 0 (min (int (length ps) + 1) N)"
      using True w(3) by (simp add: max_def min_def split: if_splits)
    ultimately show ?thesis by simp
  next
    case False
    then have "sustainCounter ?w' = sustainCounter ?w" by (intro g(6)) simp
    moreover have "sustainCounter ?w = max 0 (min (int (length ps) + 1) N)"
      using False w(3) by (simp add: max_def min_def split: if_splits)
    ultimately show ?thesis by simp
  qed
  moreover have "vib_sampleRate ?w' = vib_sampleRate v" using g(1) w(1) by simp
  moreover have "sustainSamples ?w' = N" by (rule g(2))
  ultimately show ?case unfolding r by simp
qed

text \<open>
  Claim C7 as stated fails in its second half: after the sustain period the value
  returned is the output of the LFO times \<open>vibAmount / 20000\<close>, and this is 0 whenever
  the amount control is 0. With a sustain of two samples and the amount at 0, the third
  call returns 0 as the first two do. The voice prepares the vibrato as \<open>startNote\<close>
  does, by \<open>setSampleRate\<close>, \<open>setFrequency\<close> and \<open>resetSustainCounter\<close>.
\<close>

theorem Vibrato_silent_after_sustain:
  "vibSustain (defaultParams\<lparr>vibSustain := 1 / 16384, vibAmount := 0\<rparr>)
     * vib_sampleRate (resetSustainCounter
         (Vibrato_setFrequency (defaultParams\<lparr>vibSustain := 1 / 16384, vibAmount := 0\<rparr>)
            (Vibrato_setSampleRate 32768 Vibrato_init))) = 2
   \<and> fst (Vibrato_run
        [defaultParams\<lparr>vibSustain := 1 / 16384, vibAmount := 0\<rparr>,
         defaultParams\<lparr>vibSustain := 1 / 16384, vibAmount := 0\<rparr>,
         defaultParams\<lparr>vibSustain := 1 / 16384, vibAmount := 0\<rparr>]
        (resetSustainCounter
           (Vibrato_setFrequency (defaultParams\<lparr>vibSustain := 1 / 16384, vibAmount := 0\<rparr>)
              (Vibrato_setSampleRate 32768 Vibrato_init)))) = [0, 0, 0]"
  by (simp add: Vibrato_process_def updateSustainParameters_def resetSustainCounter_def
      Vibrato_setFrequency_def Vibrato_setSampleRate_def Vibrato_init_def defaultParams_def
      cpp_trunc_def Let_def split: prod.splits)

text \<open>
  \<open>updateSustainParameters\<close> compares the product of sustain time and sample rate with
  the truncated \<open>sustainSamples\<close>. When the product is not a whole number the two differ
  on every call, every call resets the counter, and with a product of at least 1 every
  call returns 0: the sustain period never ends.
\<close>

lemma Vibrato_fractional_sustain_stuck:
  assumes "vibSustain p * vib_sampleRate v
             \<noteq> real_of_int (cpp_trunc (vibSustain p * vib_sampleRate v))"
    and "1 \<le> vibSustain p * vib_sampleRate v"
  shows "fst (Vibrato_process p v) = 0"
    and "vib_sampleRate (snd (Vibrato_process p v)) = vib_sampleRate v"
proof -
  let ?x = "vibSustain p * vib_sampleRate v"
  have ne: "?x \<noteq> real_of_int (sustainSamples v)"
  proof
    assume e: "?x = real_of_int (sustainSamples v)"
    then have "cpp_trunc ?x = sustainSamples v" by (simp add: cpp_trunc_of_int)
    with e assms(1) show False by simp
  qed
  have "1 \<le> \<lfloor>?x\<rfloor>" using assms(2) by linarith
  then have t: "0 < cpp_trunc ?x" using assms(2) by (simp add: cpp_trunc_def)
  have u: "updateSustainParameters p v
           = v\<lparr>sustainSamples := cpp_trunc ?x, sustainCounter := 0\<rparr>"
    using ne by (simp add: updateSustainParameters_def resetSustainCounter_def Let_def)
  show "fst (Vibrato_process p v) = 0"
    "vib_sampleRate (snd (Vibrato_process p v)) = vib_sampleRate v"
    using t by (simp_all add: Vibrato_process_def u)
qed

text \<open>
  Claim C7, amended. Let the sustain-time control be fixed at \<open>T\<close> with
  \<open>T * sampleRate\<close> a whole number \<open>N\<close>, and let the sustain counter be reset. Then each
  of the first \<open>N\<close> calls of \<open>process\<close> returns exactly 0, and every later call returns
  the output of the LFO, advanced at the frequency \<open>vibSpeed * 5 + 3\<close>, times
  \<open>vibAmount / 20000\<close>, which may itself be 0 (in exact arithmetic). The call examined
  is the one after the calls with the parameter snapshots \<open>ps\<close>, so it is call number
  \<open>length ps + 1\<close>.
\<close>

theorem Vibrato_sustain_gate:
  assumes "\<forall>q \<in> set (ps @ [p]). vibSustain q = T" "T * vib_sampleRate v = real_of_int N"
    "sustainCounter v = 0"
  shows "(int (length ps) < N \<longrightarrow> fst (Vibrato_process p (snd (Vibrato_run ps v))) = 0)
       \<and> (N \<le> int (length ps) \<longrightarrow>
            fst (Vibrato_process p (snd (Vibrato_run ps v)))
              = fst (Phasor_process SinOsc_output
                       (Phasor_setFrequency (vibSpeed p * 5 + 3)
                          (vibratoLFO (snd (Vibrato_run ps v)))))
                * (vibAmount p / 20000))"
proof -
  let ?w = "snd (Vibrato_run ps v)"
  have ps: "\<forall>q \<in> set ps. vibSustain q = T" and p: "vibSustain p = T" using assms(1) by auto
  from Vibrato_run_state [OF ps assms(2,3)]
  have w: "vib_sampleRate ?w = vib_sampleRate v"
    "ps \<noteq> [] \<longrightarrow> sustainSamples ?w = N"
    "sustainCounter ?w = max 0 (min (int (length ps)) N)" by auto
  have T: "vibSustain p * vib_sampleRate ?w = real_of_int N"
    using p assms(2) w by simp
  have c: "sustainSamples ?w = N \<or> sustainCounter ?w = 0"
    using w by (cases ps) auto
  note g = Vibrato_process_gate [OF T c]
  show ?thesis
  proof (intro conjI impI)
    assume "int (length ps) < N"
    then have "sustainCounter ?w < N" using w by simp
    then show "fst (Vibrato_process p ?w) = 0" by (rule g(3))
  next
    assume "N \<le> int (length ps)"
    then have "N \<le> sustainCounter ?w" using w by simp
    then show "fst (Vibrato_process p ?w)
              = fst (Phasor_process SinOsc_output
                       (Phasor_setFrequency (vibSpeed p * 5 + 3) (vibratoLFO ?w)))
                * (vibAmount p / 20000)" by (rule g(7))
  qed
qed

theorem Vibrato_sustain_gate_witness:
  "vibSustain (defaultParams\<lparr>vibSustain := 1 / 16384\<rparr>) = 1 / 16384
   \<and> 1 / 16384 * vib_sampleRate (Vibrato_setSampleRate 32768 Vibrato_init) = real_of_int 2
   \<and> sustainCounter (Vibrato_setSampleRate 32768 Vibrato_init) = 0
   \<and> fst (Vibrato_process (defaultParams\<lparr>vibSustain := 1 / 16384\<rparr>)
            (snd (Vibrato_run [defaultParams\<lparr>vibSustain := 1 / 16384\<rparr>]
                    (Vibrato_setSampleRate 32768 Vibrato_init)))) = 0
   \<and> fst (Vibrato_process (defaultParams\<lparr>vibSustain := 1 / 16384\<rparr>)
            (snd (Vibrato_run [defaultParams\<lparr>vibSustain := 1 / 16384\<rparr>,
                               defaultParams\<lparr>vibSustain := 1 / 16384\<rparr>]
                    (Vibrato_setSampleRate 32768 Vibrato_init))))
       = fst (Phasor_process SinOsc_output
                (Phasor_setFrequency
                   (vibSpeed (defaultParams\<lparr>vibSustain := 1 / 16384\<rparr>) * 5 + 3)
                   (vibratoLFO
                      (snd (Vibrato_run [defaultParams\<lparr>vibSustain := 1 / 16384\<rparr>,
                                         defaultParams\<lparr>vibSustain := 1 / 16384\<rparr>]
                              (Vibrato_setSampleRate 32768 Vibrato_init))))))
         * (vibAmount (defaultParams\<lparr>vibSustain := 1 / 16384\<rparr>) / 20000)"
proof -
  let ?P = "defaultParams\<lparr>vibSustain := 1 / 16384\<rparr>"
  let ?V = "Vibrato_setSampleRate 32768 Vibrato_init"
  have a: "1 / 16384 * vib_sampleRate ?V = real_of_int 2" "sustainCounter ?V = 0"
    by (simp_all add: Vibrato_setSampleRate_def Vibrato_init_def)
  have b: "\<forall>q \<in> set ([?P] @ [?P]). vibSustain q = 1 / 16384"
    "\<forall>q \<in> set ([?P, ?P] @ [?P]). vibSustain q = 1 / 16384"
    by simp_all
  from Vibrato_sustain_gate [OF b(1) a] Vibrato_sustain_gate [OF b(2) a] a b
  show ?thesis by simp
qed

section \<open>Arpeggiator: the pattern index\<close>










section \<open>Arpeggiator: holding the last note\<close>






text \<open>
  A run that shows the hold: at a sample rate of 400 and full speed a note is due every
  second call. The root note 60 sounds for two calls, then the last element 63 on every
  call.
\<close>

lemma Arpeggiator_hold_example:
  "map_option fst
     (Arpeggiator_run (replicate 6 (defaultParams\<lparr>arpSpeed := 1\<rparr>))
        (startArpeggio (\<lambda>i. 0) (defaultParams\<lparr>arpSpeed := 1\<rparr>) 60
           (Arpeggiator_setSampleRate (defaultParams\<lparr>arpSpeed := 1\<rparr>) 400
              (Arpeggiator_init (\<lambda>i. 0) (defaultParams\<lparr>arpSpeed := 1\<rparr>)))))
   = Some [getMidiNoteInHertz 60, getMidiNoteInHertz 60, getMidiNoteInHertz 63,
           getMidiNoteInHertz 63, getMidiNoteInHertz 63, getMidiNoteInHertz 63]"
  by (simp add: numeral_eq_Suc getNextFrequency_def noteDue_def advanceNote_def vector_at_def
      incrementPattern_def setSpeed_def updateSamplesPerNote_def startArpeggio_def
      Arpeggiator_setSampleRate_def Arpeggiator_init_def switchArpPattern_def
      switchArpOctave_def defaultParams_def cpp_trunc_def to_size_t_def size_t_to_int_def
      Let_def)

section \<open>Arpeggiator: the octave cycle\<close>






text \<open>
  A run that shows the cycle: at a sample rate of 100 and full speed a note is due on
  every call. From the root note 60 the calls return the notes 64, 67, 72, 76, 79, 60 and
  then 64 again.
\<close>

lemma Arpeggiator_cycle_example:
  "map_option fst
     (Arpeggiator_run
        (replicate 7 (defaultParams\<lparr>arpPattern := 5, arpOctave := 2, arpSpeed := 1\<rparr>))
        (startArpeggio (\<lambda>i. 0)
           (defaultParams\<lparr>arpPattern := 5, arpOctave := 2, arpSpeed := 1\<rparr>) 60
           (Arpeggiator_setSampleRate
              (defaultParams\<lparr>arpPattern := 5, arpOctave := 2, arpSpeed := 1\<rparr>) 100
              (Arpeggiator_init (\<lambda>i. 0)
                 (defaultParams\<lparr>arpPattern := 5, arpOctave := 2, arpSpeed := 1\<rparr>)))))
   = Some (map getMidiNoteInHertz [64, 67, 72, 76, 79, 60, 64])"
  by (simp add: numeral_eq_Suc getNextFrequency_def noteDue_def advanceNote_def vector_at_def
      incrementPattern_def setSpeed_def updateSamplesPerNote_def startArpeggio_def
      Arpeggiator_setSampleRate_def Arpeggiator_init_def switchArpPattern_def
      switchArpOctave_def defaultParams_def cpp_trunc_def to_size_t_def size_t_to_int_def
      Let_def)

end
